theory Spec2Isabelle
  imports
    Main
    "HOL-Library.Sublist"
    "HOL-Library.Word"
    "HOL-Library.Char_ord"
    "HOL-Library.List_Lexorder"
    "HOL-Library.Product_Lexorder"
begin

unbundle bit_operations_syntax

section \<open>Python string primitives used by app.py\<close>

text \<open>
  Text is modelled as \<^typ>\<open>string\<close>: a list of 8-bit characters, one character per
  code point. The model is exact for ASCII text; \<open>str.lower\<close>, \<open>str.strip\<close> and the
  regular-expression classes \<open>\s\<close> and \<open>\d\<close> are given on the ASCII range.
\<close>

definition isspace :: "char \<Rightarrow> bool" where
  \<comment> \<open>\<open>str.isspace\<close> on ASCII: TAB, LF, VT, FF, CR, FS, GS, RS, US and the blank.\<close>
  "isspace c \<longleftrightarrow>
     c \<in> set [CHR 0x09, CHR 0x0A, CHR 0x0B, CHR 0x0C, CHR 0x0D,
                CHR 0x1C, CHR 0x1D, CHR 0x1E, CHR 0x1F, CHR 0x20]"

definition lower_char :: "char \<Rightarrow> char" where
  "lower_char c =
     (case map_of (zip ''ABCDEFGHIJKLMNOPQRSTUVWXYZ'' ''abcdefghijklmnopqrstuvwxyz'') c of
        Some d \<Rightarrow> d
      | None \<Rightarrow> c)"

definition lower :: "string \<Rightarrow> string" where
  \<comment> \<open>\<open>s.lower()\<close>\<close>
  "lower s = map lower_char s"

definition strip :: "string \<Rightarrow> string" where
  \<comment> \<open>\<open>s.strip()\<close>: white space removed at both ends.\<close>
  "strip s = rev (dropWhile isspace (rev (dropWhile isspace s)))"

fun str_in :: "string \<Rightarrow> string \<Rightarrow> bool" where
  \<comment> \<open>\<open>q in s\<close> on strings: \<open>q\<close> occurs in \<open>s\<close> as a contiguous block.\<close>
  "str_in q [] = (q = [])"
| "str_in q (c # cs) = (prefix q (c # cs) \<or> str_in q cs)"

definition startswith :: "string \<Rightarrow> string \<Rightarrow> bool" where
  \<comment> \<open>\<open>s.startswith(p)\<close>\<close>
  "startswith s p = prefix p s"

fun collapse_slashes :: "string \<Rightarrow> string" where
  \<comment> \<open>\<open>re.sub(r"/+", "/", path)\<close>: every maximal run of slashes becomes one slash
      (a slash followed by another slash is dropped).\<close>
  "collapse_slashes [] = []"
| "collapse_slashes [c] = [c]"
| "collapse_slashes (c # d # cs) =
     (if c = CHR ''/'' \<and> d = CHR ''/'' then collapse_slashes (d # cs)
      else c # collapse_slashes (d # cs))"

definition safe_norm :: "string \<Rightarrow> string" where
  "safe_norm path0 =
     (let path = map (\<lambda>c. if c = CHR 0x5C then CHR ''/'' else c) path0;
          path = collapse_slashes path;
          path = dropWhile (\<lambda>c. c = CHR ''/'') path
      in path)"

definition is_sep :: "char \<Rightarrow> bool" where
  \<comment> \<open>the character class \<open>[\s_\-\.]\<close>\<close>
  "is_sep c \<longleftrightarrow> isspace c \<or> c = CHR ''_'' \<or> c = CHR ''-'' \<or> c = CHR ''.''"

fun split_go :: "string \<Rightarrow> string \<Rightarrow> bool \<Rightarrow> string list" where
  \<comment> \<open>\<open>cur\<close> is the piece being read, reversed; \<open>insep\<close> says that the last character
      belonged to a separator run, which has already closed a piece.\<close>
  "split_go [] cur insep = [rev cur]"
| "split_go (c # cs) cur insep =
     (if is_sep c then
        (if insep then split_go cs [] True else rev cur # split_go cs [] True)
      else split_go cs (c # cur) False)"

definition re_split :: "string \<Rightarrow> string list" where
  \<comment> \<open>\<open>re.split(r"[\s_\-\.]+", q)\<close>: the pieces between maximal separator runs, with an
      empty piece where the text starts or ends with a separator.\<close>
  "re_split q = split_go q [] False"

section \<open>Ranking engine\<close>

record 'm item =
  relpath :: string
  filename :: string
  folder :: string
  mtime :: 'm
  size_bytes :: int
  item_id :: string

fun token_loop :: "string list \<Rightarrow> string \<Rightarrow> string \<Rightarrow> int \<Rightarrow> int" where
  \<comment> \<open>the loop \<open>for t in tokens\<close> of \<open>score_match\<close>, threading \<open>score\<close>\<close>
  "token_loop [] f r score = score"
| "token_loop (t # ts) f r score =
     (if t = [] then token_loop ts f r score
      else if str_in t f then token_loop ts f r (score + 120)
      else if str_in t r then token_loop ts f r (score + 60)
      else token_loop ts f r score)"

definition score_match :: "string \<Rightarrow> string \<Rightarrow> string \<Rightarrow> int" where
  "score_match q0 fname rpath =
     (let q = strip (lower q0) in
      if q = [] then 0
      else
        let f = lower fname; r = lower rpath in
        if q = f then 1000
        else if str_in q f then 800 - (int (length f) - int (length q))
        else if str_in q r then 500 - (int (length r) - int (length q))
        else token_loop (re_split q) f r 0)"

definition sort_reverse :: "('a \<Rightarrow> 'k::linorder) \<Rightarrow> 'a list \<Rightarrow> 'a list" where
  \<comment> \<open>\<open>xs.sort(key=key, reverse=True)\<close>: the list is reversed, sorted stably in ascending
      order of the key and reversed again, so that equal keys keep their original order.\<close>
  "sort_reverse key xs = rev (sort_key key (rev xs))"

fun score_loop :: "string \<Rightarrow> 'm item list \<Rightarrow> (int \<times> 'm item) list" where
  \<comment> \<open>the loop of \<open>filter_items\<close> that fills \<open>scored\<close>\<close>
  "score_loop q [] = []"
| "score_loop q (it # its) =
     (let s = score_match q (filename it) (relpath it) in
      if s > 0 then (s, it) # score_loop q its else score_loop q its)"

definition filter_items ::
  "'m item list \<Rightarrow> string \<Rightarrow> string \<Rightarrow> string option \<Rightarrow> 'm item list" where
  \<comment> \<open>the first argument is \<open>INDEX["items"]\<close>\<close>
  "filter_items index_items q0 folder0 starts_with =
     (let q = strip q0;
          fol = safe_norm folder0;
          items = index_items;
          items = (if fol \<noteq> [] then
                     filter (\<lambda>it. folder it = fol \<or> startswith (folder it) (fol @ ''/'')) items
                   else items);
          items = (case starts_with of
                     None \<Rightarrow> items
                   | Some s0 \<Rightarrow>
                       if s0 = [] then items
                       else
                         let sw = lower (strip s0) in
                         if sw \<noteq> [] then
                           filter (\<lambda>it. startswith (lower (filename it)) sw) items
                         else items)
      in if q = [] then items
         else map snd (sort_reverse fst (score_loop q items)))"

section \<open>Integers and their text\<close>

definition isdigit :: "char \<Rightarrow> bool" where
  \<comment> \<open>the class \<open>\d\<close> on ASCII\<close>
  "isdigit c \<longleftrightarrow> c \<in> set ''0123456789''"

definition digit_val :: "char \<Rightarrow> nat" where
  "digit_val c = (case map_of (zip ''0123456789'' [0, 1, 2, 3, 4, 5, 6, 7, 8, 9]) c of
                    Some n \<Rightarrow> n | None \<Rightarrow> 0)"

definition digit_char :: "nat \<Rightarrow> char" where
  "digit_char n = ''0123456789'' ! (n mod 10)"

fun digits_acc :: "string \<Rightarrow> nat \<Rightarrow> nat option" where
  \<comment> \<open>the rest of a decimal literal after a digit: digits, each optionally preceded by
      one underscore\<close>
  "digits_acc [] n = Some n"
| "digits_acc [c] n = (if isdigit c then Some (10 * n + digit_val c) else None)"
| "digits_acc (c # d # cs) n =
     (if isdigit c then digits_acc (d # cs) (10 * n + digit_val c)
      else if c = CHR ''_'' \<and> isdigit d then digits_acc cs (10 * n + digit_val d)
      else None)"

definition parse_digits :: "string \<Rightarrow> nat option" where
  "parse_digits s =
     (case s of
        [] \<Rightarrow> None
      | c # cs \<Rightarrow> if isdigit c then digits_acc cs (digit_val c) else None)"

definition py_int :: "string \<Rightarrow> int option" where
  \<comment> \<open>\<open>int(s)\<close> for a string: \<open>None\<close> stands for \<open>ValueError\<close>. Surrounding white
      space and one sign are accepted. The limit that recent interpreters put on the number
      of digits is not modelled.\<close>
  "py_int s =
     (case strip s of
        [] \<Rightarrow> None
      | c # cs \<Rightarrow>
          if c = CHR ''-'' then map_option (\<lambda>n. - int n) (parse_digits cs)
          else if c = CHR ''+'' then map_option int (parse_digits cs)
          else map_option int (parse_digits (c # cs)))"

function str_nat :: "nat \<Rightarrow> string" where
  "str_nat n = (if n < 10 then [digit_char n] else str_nat (n div 10) @ [digit_char n])"
  by pat_completeness auto
termination
  by (relation "measure id") auto

definition str_int :: "int \<Rightarrow> string" where
  \<comment> \<open>\<open>str(i)\<close> for an integer\<close>
  "str_int i = (if i < 0 then CHR ''-'' # str_nat (nat (- i)) else str_nat (nat i))"

section \<open>Pagination and the query endpoints\<close>

definition MAX_PAGE_SIZE :: int where
  "MAX_PAGE_SIZE = 50"

definition DEFAULT_PAGE_SIZE :: int where
  "DEFAULT_PAGE_SIZE = 12"

definition py_slice :: "'a list \<Rightarrow> int \<Rightarrow> int \<Rightarrow> 'a list" where
  \<comment> \<open>\<open>xs[a:b]\<close>: a negative bound counts from the end, and both bounds are clamped to
      the list.\<close>
  "py_slice xs a b =
     (let n = int (length xs);
          lo = (if a < 0 then max 0 (a + n) else min a n);
          hi = (if b < 0 then max 0 (b + n) else min b n)
      in take (nat (hi - lo)) (drop (nat lo) xs))"

record 'm page_item =
  pi_id :: string
  pi_filename :: string
  pi_folder :: string
  pi_relpath :: string
  pi_url :: string
  pi_mtime :: 'm
  pi_size :: int

record 'm page =
  pg_total :: int
  pg_offset :: int
  pg_limit :: int
  pg_items :: "'m page_item list"

definition page_entry :: "'m item \<Rightarrow> 'm page_item" where
  "page_entry it =
     \<lparr>pi_id = item_id it, pi_filename = filename it, pi_folder = folder it,
      pi_relpath = relpath it, pi_url = ''/v/'' @ item_id it, pi_mtime = mtime it,
      pi_size = size_bytes it\<rparr>"

definition make_page :: "'m item list \<Rightarrow> int \<Rightarrow> int \<Rightarrow> 'm page" where
  "make_page items offset limit =
     (let chunk = py_slice items offset (offset + limit)
      in \<lparr>pg_total = int (length items), pg_offset = offset, pg_limit = limit,
          pg_items = map page_entry chunk\<rparr>)"

record suggestion =
  sg_id :: string
  sg_filename :: string
  sg_folder :: string
  sg_relpath :: string

definition suggest_entry :: "'m item \<Rightarrow> suggestion" where
  "suggest_entry it =
     \<lparr>sg_id = item_id it, sg_filename = filename it, sg_folder = folder it,
      sg_relpath = relpath it\<rparr>"

datatype 'm json =
    Json_page "'m page"
  | Json_suggest "suggestion list"
  | Json_error string

type_synonym query_args = "(string \<times> string) list"

definition args_get :: "query_args \<Rightarrow> string \<Rightarrow> string \<Rightarrow> string" where
  \<comment> \<open>\<open>request.args.get(key, default)\<close>: the first value given for the key\<close>
  "args_get args k dflt = (case map_of args k of None \<Rightarrow> dflt | Some v \<Rightarrow> v)"

definition starts_with_arg :: "query_args \<Rightarrow> string option" where
  \<comment> \<open>\<open>(request.args.get("starts_with", "") or "").strip() or None\<close>\<close>
  "starts_with_arg args =
     (let s = strip (args_get args ''starts_with'' '''') in if s = [] then None else Some s)"

definition api_feed :: "'m item list \<Rightarrow> query_args \<Rightarrow> 'm json \<times> int" where
  \<comment> \<open>the response body and the HTTP status; the first argument is \<open>INDEX["items"]\<close>\<close>
  "api_feed index_items args =
     (let q = args_get args ''q'' '''';
          fol = args_get args ''folder'' '''';
          starts_with = starts_with_arg args
      in case py_int (args_get args ''offset'' ''0'') of
           None \<Rightarrow> (Json_error ''bad offset/limit'', 400)
         | Some offset0 \<Rightarrow>
             (case py_int (args_get args ''limit'' (str_int DEFAULT_PAGE_SIZE)) of
                None \<Rightarrow> (Json_error ''bad offset/limit'', 400)
              | Some limit0 \<Rightarrow>
                  let offset = (if offset0 < 0 then 0 else offset0);
                      limit = max 1 (min limit0 MAX_PAGE_SIZE);
                      items = filter_items index_items q fol starts_with
                  in (Json_page (make_page items offset limit), 200)))"

definition api_suggest :: "'m item list \<Rightarrow> query_args \<Rightarrow> 'm json \<times> int" where
  "api_suggest index_items args =
     (let q = strip (args_get args ''q'' '''');
          fol = args_get args ''folder'' '''';
          starts_with = starts_with_arg args;
          limit0 = (case py_int (args_get args ''limit'' ''8'') of
                      None \<Rightarrow> 8
                    | Some l \<Rightarrow> l);
          limit = max 1 (min limit0 20);
          items = filter_items index_items q fol starts_with;
          top = py_slice items 0 limit
      in (Json_suggest (map suggest_entry top), 200))"

section \<open>Range streamer and path checks\<close>

type_synonym byte = "8 word"

text \<open>
  The file system as the request handlers see it. \<open>fs_resolve\<close> is \<open>Path.resolve()\<close>
  (the canonical absolute path, symbolic links and dot segments followed), with \<open>None\<close>
  where it raises; \<open>fs_data\<close> is the content of a file, whose length is \<open>st_size\<close>.
\<close>

record filesystem =
  fs_resolve :: "string \<Rightarrow> string option"
  fs_exists :: "string \<Rightarrow> bool"
  fs_is_file :: "string \<Rightarrow> bool"
  fs_data :: "string \<Rightarrow> byte list"

definition os_sep :: string where
  "os_sep = ''/''"

definition path_join :: "string \<Rightarrow> string \<Rightarrow> string" where
  \<comment> \<open>\<open>root / rel\<close>: an absolute right operand replaces the left one.\<close>
  "path_join root rel =
     (if rel = [] then root
      else if startswith rel ''/'' then rel
      else if root \<noteq> [] \<and> last root = CHR ''/'' then root @ rel
      else root @ ''/'' @ rel)"

definition is_within_root :: "filesystem \<Rightarrow> string \<Rightarrow> string \<Rightarrow> bool" where
  \<comment> \<open>an exception of either \<open>resolve\<close> is caught and gives \<open>False\<close>\<close>
  "is_within_root fs root target =
     (case fs_resolve fs root of
        None \<Rightarrow> False
      | Some root_res \<Rightarrow>
          (case fs_resolve fs target of
             None \<Rightarrow> False
           | Some target_res \<Rightarrow>
               startswith target_res (root_res @ os_sep) \<or> target_res = root_res))"

fun get_item_by_id :: "'m item list \<Rightarrow> string \<Rightarrow> 'm item option" where
  "get_item_by_id [] i = None"
| "get_item_by_id (it # its) i = (if item_id it = i then Some it else get_item_by_id its i)"

datatype response =
    Abort int
    \<comment> \<open>\<open>abort(code)\<close>\<close>
  | Send_file string
    \<comment> \<open>\<open>send_file(path, conditional=True)\<close>: the whole file\<close>
  | Response "byte list" int string "(string \<times> string) list"
    \<comment> \<open>body, status, mimetype and the headers added, in order\<close>
  | Unhandled
    \<comment> \<open>an exception that no handler catches\<close>

datatype file_read = File_read string int int
  \<comment> \<open>\<open>open(path, "rb")\<close>, \<open>seek(start)\<close>, \<open>read(length)\<close>\<close>

definition read_range :: "filesystem \<Rightarrow> string \<Rightarrow> int \<Rightarrow> int \<Rightarrow> byte list" where
  \<comment> \<open>what \<open>f.seek(start); f.read(length)\<close> returns for non-negative arguments\<close>
  "read_range fs path start len = take (nat len) (drop (nat start) (fs_data fs path))"

definition re_match_range :: "string \<Rightarrow> (string \<times> string) option" where
  \<comment> \<open>\<open>re.match(r"bytes=(\d+)-(\d*)", header)\<close>: the two groups. The match is anchored at
      the start only, and both digit groups are greedy.\<close>
  "re_match_range h =
     (if startswith h ''bytes='' then
        (let rest = drop 6 h;
             g1 = takeWhile isdigit rest
         in if g1 = [] then None
            else (case dropWhile isdigit rest of
                    [] \<Rightarrow> None
                  | c # rest2 \<Rightarrow>
                      if c = CHR ''-'' then Some (g1, takeWhile isdigit rest2) else None))
      else None)"

definition serve_range ::
  "filesystem \<Rightarrow> string \<Rightarrow> string \<Rightarrow> response \<times> file_read list" where
  \<comment> \<open>the part of \<open>stream_video\<close> after the path checks, for a non-empty Range header\<close>
  "serve_range fs target range_header =
     (let size = int (length (fs_data fs target))
      in case re_match_range range_header of
           None \<Rightarrow> (Send_file target, [])
         | Some (g1, g2) \<Rightarrow>
             (case py_int g1 of
                None \<Rightarrow> (Unhandled, [])
              | Some start \<Rightarrow>
                  (case (if g2 \<noteq> [] then py_int g2 else Some (size - 1)) of
                     None \<Rightarrow> (Unhandled, [])
                   | Some end0 \<Rightarrow>
                       let end1 = min end0 (size - 1) in
                       if start > end1 then (Abort 416, [])
                       else
                         let len = end1 - start + 1;
                             data = read_range fs target start len
                         in (Response data 206 ''video/mp4''
                               [(''Content-Range'',
                                   ''bytes '' @ str_int start @ ''-'' @ str_int end1
                                     @ ''/'' @ str_int size),
                                (''Accept-Ranges'', ''bytes''),
                                (''Content-Length'', str_int len)],
                             [File_read target start len]))))"

definition stream_video ::
  "filesystem \<Rightarrow> string \<Rightarrow> 'm item list \<Rightarrow> string \<Rightarrow> string option
     \<Rightarrow> response \<times> file_read list" where
  \<comment> \<open>arguments: the file system, \<open>app.config["ROOT_DIR"]\<close>, \<open>INDEX["items"]\<close>, the id of
      the route and the Range header of the request\<close>
  "stream_video fs root_dir index_items iid range_header =
     (case fs_resolve fs root_dir of
        None \<Rightarrow> (Unhandled, [])
      | Some root \<Rightarrow>
          (case get_item_by_id index_items iid of
             None \<Rightarrow> (Abort 404, [])
           | Some it \<Rightarrow>
               (case fs_resolve fs (path_join root (relpath it)) of
                  None \<Rightarrow> (Unhandled, [])
                | Some target \<Rightarrow>
                    if \<not> is_within_root fs root target \<or> \<not> fs_exists fs target
                    then (Abort 404, [])
                    else
                      (case range_header of
                         None \<Rightarrow> (Send_file target, [])
                       | Some h \<Rightarrow>
                           if h = [] then (Send_file target, [])
                           else serve_range fs target h))))"

definition open_file ::
  "(string \<Rightarrow> string) \<Rightarrow> filesystem \<Rightarrow> string \<Rightarrow> string \<Rightarrow> response" where
  \<comment> \<open>the first argument is \<open>urllib.parse.unquote\<close>\<close>
  "open_file unquote fs root_dir relpath0 =
     (case fs_resolve fs root_dir of
        None \<Rightarrow> Unhandled
      | Some root \<Rightarrow>
          (let rel = safe_norm (unquote relpath0)
           in case fs_resolve fs (path_join root rel) of
                None \<Rightarrow> Unhandled
              | Some target \<Rightarrow>
                  if \<not> is_within_root fs root target \<or> \<not> fs_exists fs target
                     \<or> \<not> fs_is_file fs target
                  then Abort 404
                  else Send_file target))"

section \<open>Entry identifiers\<close>

subsection \<open>SHA-1, as \<open>hashlib.sha1\<close> computes it\<close>

text \<open>
  The digest follows FIPS 180-4: the message is padded to a multiple of 64 bytes, cut into
  blocks of sixteen big-endian 32-bit words, and each block is folded into five chaining
  words by eighty rounds.
\<close>

type_synonym w32 = "32 word"

definition be64 :: "64 word \<Rightarrow> byte list" where
  \<comment> \<open>eight bytes, most significant first\<close>
  "be64 w = map (\<lambda>i. ucast (drop_bit (8 * i) w)) [7, 6, 5, 4, 3, 2, 1, 0]"

definition sha1_pad :: "byte list \<Rightarrow> byte list" where
  \<comment> \<open>the message, the byte \<open>0x80\<close>, zero bytes up to 56 modulo 64, and the length of
      the message in bits\<close>
  "sha1_pad m =
     (let l = length m
      in m @ [0x80] @ replicate ((119 - l mod 64) mod 64) 0 @ be64 (of_nat (8 * l)))"

fun be_words :: "byte list \<Rightarrow> w32 list" where
  "be_words (a # b # c # d # rest) =
     (push_bit 24 (ucast a) OR push_bit 16 (ucast b) OR push_bit 8 (ucast c) OR ucast d)
       # be_words rest"
| "be_words _ = []"

fun sha1_expand :: "nat \<Rightarrow> w32 list \<Rightarrow> w32 list" where
  \<comment> \<open>the message schedule, grown by \<open>n\<close> words\<close>
  "sha1_expand 0 ws = ws"
| "sha1_expand (Suc n) ws =
     (let l = length ws
      in sha1_expand n
           (ws @ [word_rotl 1 (ws ! (l - 3) XOR ws ! (l - 8) XOR ws ! (l - 14) XOR ws ! (l - 16))]))"

type_synonym sha1_regs = "w32 \<times> w32 \<times> w32 \<times> w32 \<times> w32"

definition sha1_round :: "w32 list \<Rightarrow> nat \<Rightarrow> sha1_regs \<Rightarrow> sha1_regs" where
  "sha1_round ws i regs =
     (case regs of (a, b, c, d, e) \<Rightarrow>
        let (f, k) =
              (if i < 20 then ((b AND c) OR (NOT b AND d), 0x5A827999)
               else if i < 40 then (b XOR c XOR d, 0x6ED9EBA1)
               else if i < 60 then ((b AND c) OR (b AND d) OR (c AND d), 0x8F1BBCDC)
               else (b XOR c XOR d, 0xCA62C1D6));
            temp = word_rotl 5 a + f + e + k + ws ! i
        in (temp, a, word_rotl 30 b, c, d))"

definition sha1_block :: "w32 list \<Rightarrow> sha1_regs \<Rightarrow> sha1_regs" where
  \<comment> \<open>one block of sixteen words folded into the chaining value\<close>
  "sha1_block blk h =
     (let ws = sha1_expand 64 blk in
      case (h, fold (sha1_round ws) [0..<80] h) of
        ((h0, h1, h2, h3, h4), (a, b, c, d, e)) \<Rightarrow> (h0 + a, h1 + b, h2 + c, h3 + d, h4 + e))"

definition sha1_init :: sha1_regs where
  "sha1_init = (0x67452301, 0xEFCDAB89, 0x98BADCFE, 0x10325476, 0xC3D2E1F0)"

definition sha1 :: "byte list \<Rightarrow> sha1_regs" where
  "sha1 m =
     (let ws = be_words (sha1_pad m)
      in fold (\<lambda>i. sha1_block (take 16 (drop (16 * i) ws))) [0..<length ws div 16] sha1_init)"

definition hex_digits :: string where
  "hex_digits = ''0123456789abcdef''"

definition hex_char :: "nat \<Rightarrow> char" where
  "hex_char n = hex_digits ! (n mod 16)"

definition hex32 :: "w32 \<Rightarrow> string" where
  "hex32 w = map (\<lambda>i. hex_char (unat (drop_bit (4 * i) w AND 0xF))) [7, 6, 5, 4, 3, 2, 1, 0]"

definition sha1_hex :: "byte list \<Rightarrow> string" where
  "sha1_hex m =
     (case sha1 m of (h0, h1, h2, h3, h4) \<Rightarrow>
        hex32 h0 @ hex32 h1 @ hex32 h2 @ hex32 h3 @ hex32 h4)"

text \<open>
  A hash object holds the bytes fed to it so far: \<open>update\<close> appends and \<open>hexdigest\<close>
  hashes what has been collected.
\<close>

type_synonym hash_obj = "byte list"

definition hashlib_sha1 :: hash_obj where
  "hashlib_sha1 = []"

definition update :: "hash_obj \<Rightarrow> byte list \<Rightarrow> hash_obj" where
  "update h bs = h @ bs"

definition hexdigest :: "hash_obj \<Rightarrow> string" where
  "hexdigest h = sha1_hex h"

definition encode_utf8 :: "string \<Rightarrow> byte list" where
  \<comment> \<open>\<open>s.encode("utf-8")\<close> on ASCII text: one byte per character\<close>
  "encode_utf8 s = map of_char s"

subsection \<open>\<open>compute_id\<close> and \<open>build_index\<close>\<close>

text \<open>
  The modification time is a float in the program. Its type \<open>'m\<close> and its text
  \<open>str(mtime)\<close> are parameters of the model: the argument \<open>str_float\<close>.
\<close>

definition compute_id :: "('m \<Rightarrow> string) \<Rightarrow> string \<Rightarrow> 'm \<Rightarrow> int \<Rightarrow> string" where
  "compute_id str_float rel mt sz =
     (let h = hashlib_sha1;
          h = update h (encode_utf8 rel);
          h = update h (encode_utf8 (str_float mt));
          h = update h (encode_utf8 (str_int sz))
      in take 16 (hexdigest h))"

definition VIDEO_EXTS :: "string list" where
  "VIDEO_EXTS = [''.mp4'', ''.mov'', ''.m4v'', ''.webm'']"

definition path_name :: "string \<Rightarrow> string" where
  \<comment> \<open>\<open>Path(p).name\<close>: the final component\<close>
  "path_name p = rev (takeWhile (\<lambda>c. c \<noteq> CHR ''/'') (rev p))"

definition path_suffix :: "string \<Rightarrow> string" where
  \<comment> \<open>\<open>Path(p).suffix\<close>: the final component from its last dot on, when that dot is
      neither its first nor its last character\<close>
  "path_suffix p =
     (let name = path_name p;
          ext = rev (takeWhile (\<lambda>c. c \<noteq> CHR ''.'') (rev name))
      in if CHR ''.'' \<in> set name \<and> ext \<noteq> [] \<and> length ext + 1 < length name
         then CHR ''.'' # ext else [])"

definition path_parent :: "string \<Rightarrow> string" where
  \<comment> \<open>\<open>str(Path(rel).parent)\<close> for a relative path\<close>
  "path_parent rel =
     (if CHR ''/'' \<in> set rel then rev (tl (dropWhile (\<lambda>c. c \<noteq> CHR ''/'') (rev rel)))
      else ''.'')"

text \<open>
  One path produced by \<open>root_dir.rglob("*")\<close>: its text relative to the root, whether it
  is a regular file, and what \<open>stat\<close> reports for it.
\<close>

record 'm dirent =
  de_rel :: string
  de_is_file :: bool
  de_mtime :: 'm
  de_size :: int

record ('m, 't) index =
  idx_built_at :: "'t option"
  idx_root :: "string option"
  idx_items :: "'m item list"
  idx_folders :: "string list"

definition set_add :: "'a list \<Rightarrow> 'a \<Rightarrow> 'a list" where
  \<comment> \<open>\<open>s.add(x)\<close> on a set kept as a duplicate-free list\<close>
  "set_add s x = (if x \<in> set s then s else s @ [x])"

definition is_video :: "'m dirent \<Rightarrow> bool" where
  \<comment> \<open>the two tests at the head of the loop of \<open>build_index\<close>\<close>
  "is_video p \<longleftrightarrow> de_is_file p \<and> lower (path_suffix (de_rel p)) \<in> set VIDEO_EXTS"

definition make_item :: "('m \<Rightarrow> string) \<Rightarrow> 'm dirent \<Rightarrow> 'm item" where
  \<comment> \<open>the entry that the body of the loop builds for one video file\<close>
  "make_item str_float p =
     (let rel = safe_norm (de_rel p);
          fol = safe_norm (path_parent rel);
          fol = (if fol = ''.'' then [] else fol)
      in \<lparr>relpath = rel, filename = path_name (de_rel p), folder = fol,
          mtime = de_mtime p, size_bytes = de_size p,
          item_id = compute_id str_float rel (de_mtime p) (de_size p)\<rparr>)"

fun build_loop ::
  "('m \<Rightarrow> string) \<Rightarrow> 'm dirent list \<Rightarrow> 'm item list \<times> string list
     \<Rightarrow> 'm item list \<times> string list" where
  \<comment> \<open>the loop of \<open>build_index\<close> over the walk, threading \<open>items\<close> and \<open>folders\<close>\<close>
  "build_loop str_float [] acc = acc"
| "build_loop str_float (p # ps) (its, fols) =
     (if \<not> is_video p then build_loop str_float ps (its, fols)
      else
        let it = make_item str_float p
        in build_loop str_float ps (its @ [it], set_add fols (folder it)))"

definition count_char :: "char \<Rightarrow> string \<Rightarrow> nat" where
  "count_char c s = length (filter (\<lambda>d. d = c) s)"

definition build_index ::
  "('m::linorder \<Rightarrow> string) \<Rightarrow> 't \<Rightarrow> string \<Rightarrow> 'm dirent list \<Rightarrow> ('m, 't) index" where
  \<comment> \<open>arguments: the text of a float, \<open>time.time()\<close>, \<open>root_dir\<close> and the walk of the
      tree under it. The iteration order of the set \<open>folders\<close> is fixed here as the order
      of insertion.\<close>
  "build_index str_float now root_dir walk =
     (case build_loop str_float walk ([], [[]]) of
        (its, fols) \<Rightarrow>
          \<lparr>idx_built_at = Some now, idx_root = Some root_dir,
           idx_items = sort_reverse mtime its,
           idx_folders = sort_key (\<lambda>s. (count_char CHR ''/'' s, lower s)) fols\<rparr>)"

section \<open>Catalog cache and the live index\<close>

datatype exn = OSError | AttributeError | JSONDecodeError

text \<open>
  What the cache code sees of the outside: path resolution, whether a path exists, what
  \<open>load_index\<close> gives for a path (the parsed document or an exception), the walk of a
  directory, the clock, and whether a file can be written.
\<close>

record ('m, 't) cache_doc =
  cd_built_at :: "'t option"
  cd_root :: "string option"
  \<comment> \<open>\<open>idx.get("root")\<close>, when it is a string\<close>
  cd_items :: "'m item list option"
  \<comment> \<open>\<open>idx.get("items")\<close>, when it is a list\<close>
  cd_folders :: "string list"

record ('m, 't) world =
  w_resolve :: "string \<Rightarrow> string"
  w_exists :: "string \<Rightarrow> bool"
  w_load :: "string \<Rightarrow> exn + ('m, 't) cache_doc"
  w_rglob :: "string \<Rightarrow> 'm dirent list"
  w_time :: 't
  w_writable :: "string \<Rightarrow> bool"
  w_str_float :: "'m \<Rightarrow> string"

record ('m, 't) globals =
  INDEX :: "('m, 't) index"
  INDEX_CACHE_PATH :: "string option"

definition initial_globals :: "('m, 't) globals" where
  "initial_globals =
     \<lparr>INDEX = \<lparr>idx_built_at = None, idx_root = None, idx_items = [], idx_folders = []\<rparr>,
      INDEX_CACHE_PATH = None\<rparr>"

definition save_index ::
  "('m, 't) world \<Rightarrow> ('m, 't) index \<Rightarrow> string option \<Rightarrow> exn + (string \<times> ('m, 't) index)" where
  \<comment> \<open>\<open>cache_path.write_text(json.dumps(idx))\<close>: the file written and its content, or the
      exception raised\<close>
  "save_index w idx cache_path =
     (case cache_path of
        None \<Rightarrow> Inl AttributeError
      | Some p \<Rightarrow> if w_writable w p then Inr (p, idx) else Inl OSError)"

definition index_of_doc :: "('m, 't) cache_doc \<Rightarrow> ('m, 't) index" where
  \<comment> \<open>the parsed document as the live index, once its \<open>items\<close> is known to be a list\<close>
  "index_of_doc d =
     \<lparr>idx_built_at = cd_built_at d, idx_root = cd_root d,
      idx_items = (case cd_items d of Some its \<Rightarrow> its | None \<Rightarrow> []),
      idx_folders = cd_folders d\<rparr>"

definition build_and_save ::
  "('m::linorder, 't) world \<Rightarrow> ('m, 't) globals \<Rightarrow> string
     \<Rightarrow> ('m, 't) globals \<times> (exn + (string \<times> ('m, 't) index) option)" where
  \<comment> \<open>the last two statements of \<open>ensure_index\<close>: the assignment to \<open>INDEX\<close>, then the
      save\<close>
  "build_and_save w g root_dir =
     (let g = g\<lparr>INDEX := build_index (w_str_float w) (w_time w) root_dir (w_rglob w root_dir)\<rparr>
      in case save_index w (INDEX g) (INDEX_CACHE_PATH g) of
           Inl e \<Rightarrow> (g, Inl e)
         | Inr wr \<Rightarrow> (g, Inr (Some wr)))"

definition ensure_index ::
  "('m::linorder, 't) world \<Rightarrow> ('m, 't) globals \<Rightarrow> string
     \<Rightarrow> ('m, 't) globals \<times> (exn + (string \<times> ('m, 't) index) option)" where
  \<comment> \<open>the globals after the call, with either the exception that left the call or the
      file it wrote, if any\<close>
  "ensure_index w g root_dir0 =
     (let root_dir = w_resolve w root_dir0;
          g = g\<lparr>INDEX_CACHE_PATH := Some (path_join root_dir ''.reels_index.json'')\<rparr>;
          cache_path = path_join root_dir ''.reels_index.json''
      in if w_exists w cache_path then
           (case w_load w cache_path of
              Inl e \<Rightarrow> build_and_save w g root_dir
            | Inr idx \<Rightarrow>
                if cd_root idx = Some root_dir \<and> cd_items idx \<noteq> None
                then (g\<lparr>INDEX := index_of_doc idx\<rparr>, Inr None)
                else build_and_save w g root_dir)
         else build_and_save w g root_dir)"

definition refresh_index_if_requested ::
  "('m::linorder, 't) world \<Rightarrow> ('m, 't) globals \<Rightarrow> query_args \<Rightarrow> string
     \<Rightarrow> ('m, 't) globals \<times> (exn + (string \<times> ('m, 't) index) option)" where
  "refresh_index_if_requested w g args root_dir =
     (if map_of args ''reindex'' = Some ''1'' then
        (let idx = build_index (w_str_float w) (w_time w) root_dir (w_rglob w root_dir)
         in case save_index w idx (INDEX_CACHE_PATH g) of
              Inl e \<Rightarrow> (g, Inl e)
            | Inr wr \<Rightarrow> (g\<lparr>INDEX := idx\<rparr>, Inr (Some wr)))
      else (g, Inr None))"

section \<open>Notions of the specification\<close>

text \<open>
  The definitions of this section are not translated from the program. They write down
  what the specification says, so that the program can be compared with it.
\<close>

fun pieces :: "(char \<Rightarrow> bool) \<Rightarrow> string \<Rightarrow> string list" where
  \<comment> \<open>the pieces of a text between single separator characters\<close>
  "pieces sep [] = [[]]"
| "pieces sep (c # cs) =
     (if sep c then [] # pieces sep cs
      else (case pieces sep cs of w # ws \<Rightarrow> (c # w) # ws | [] \<Rightarrow> [[c]]))"

definition nonempty_pieces :: "(char \<Rightarrow> bool) \<Rightarrow> string \<Rightarrow> string list" where
  "nonempty_pieces sep s = filter (\<lambda>w. w \<noteq> []) (pieces sep s)"

definition ladder_score :: "string \<Rightarrow> string \<Rightarrow> string \<Rightarrow> int" where
  \<comment> \<open>the scoring ladder of the specification, for a query, a file name and a relative
      path that are already in lower case; the tokens are the non-empty pieces of the query
      between white space, underscores, hyphens and periods\<close>
  "ladder_score q f r =
     (if q = f then 1000
      else if sublist q f then 800 - (int (length f) - int (length q))
      else if sublist q r then 500 - (int (length r) - int (length q))
      else (\<Sum>t\<leftarrow>nonempty_pieces is_sep q.
              if sublist t f then 120 else if sublist t r then 60 else 0))"

definition path_parts :: "string \<Rightarrow> string list" where
  \<comment> \<open>the components of a path\<close>
  "path_parts p = nonempty_pieces (\<lambda>c. c = CHR ''/'') p"






definition cache_usable :: "('m, 't) world \<Rightarrow> string \<Rightarrow> bool" where
  \<comment> \<open>a cache file exists for the root, can be loaded and was saved for this root\<close>
  "cache_usable w root_dir \<longleftrightarrow>
     w_exists w (path_join root_dir ''.reels_index.json'')
     \<and> (case w_load w (path_join root_dir ''.reels_index.json'') of
          Inl e \<Rightarrow> False
        | Inr d \<Rightarrow> cd_root d = Some root_dir \<and> cd_items d \<noteq> None)"

section \<open>Example data\<close>

definition demo_items :: "int item list" where
  "demo_items =
     [\<lparr>relpath = ''a.mp4'', filename = ''a.mp4'', folder = [], mtime = 1,
       size_bytes = 1000, item_id = ''i1''\<rparr>]"

definition demo_fs :: filesystem where
  \<comment> \<open>a root \<open>/srv/videos\<close> with one file of 1000 bytes\<close>
  "demo_fs =
     \<lparr>fs_resolve = Some,
      fs_exists = (\<lambda>p. p = ''/srv/videos/a.mp4''),
      fs_is_file = (\<lambda>p. p = ''/srv/videos/a.mp4''),
      fs_data = (\<lambda>p. if p = ''/srv/videos/a.mp4'' then replicate 1000 7 else [])\<rparr>"

definition empty_file_fs :: filesystem where
  \<comment> \<open>the same tree, with a file of no bytes\<close>
  "empty_file_fs =
     \<lparr>fs_resolve = Some,
      fs_exists = (\<lambda>p. p = ''/srv/videos/a.mp4''),
      fs_is_file = (\<lambda>p. p = ''/srv/videos/a.mp4''),
      fs_data = (\<lambda>p. [])\<rparr>"

definition escape_items :: "int item list" where
  "escape_items =
     [\<lparr>relpath = ''../secret.mp4'', filename = ''secret.mp4'', folder = ''..'', mtime = 1,
       size_bytes = 10, item_id = ''x1''\<rparr>]"

definition escape_fs :: filesystem where
  \<comment> \<open>a file exists outside the root, and a path with a dot-dot segment resolves to it\<close>
  "escape_fs =
     \<lparr>fs_resolve =
        (\<lambda>p. if p = ''/srv/videos/../secret.mp4'' then Some ''/srv/secret.mp4'' else Some p),
      fs_exists = (\<lambda>p. True),
      fs_is_file = (\<lambda>p. True),
      fs_data = (\<lambda>p. [1, 2, 3])\<rparr>"

definition folder_catalog :: "int item list" where
  "folder_catalog =
     [\<lparr>relpath = ''a/Beach.mp4'', filename = ''Beach.mp4'', folder = ''a'', mtime = 4,
       size_bytes = 10, item_id = ''i1''\<rparr>,
      \<lparr>relpath = ''a/b/bird.mp4'', filename = ''bird.mp4'', folder = ''a/b'', mtime = 3,
       size_bytes = 10, item_id = ''i2''\<rparr>,
      \<lparr>relpath = ''ab/boat.mp4'', filename = ''boat.mp4'', folder = ''ab'', mtime = 2,
       size_bytes = 10, item_id = ''i3''\<rparr>,
      \<lparr>relpath = ''a/cat.mp4'', filename = ''cat.mp4'', folder = ''a'', mtime = 1,
       size_bytes = 10, item_id = ''i4''\<rparr>]"

definition walk_one :: "int dirent list" where
  \<comment> \<open>a walk that meets two videos, a text file and a directory\<close>
  "walk_one =
     [\<lparr>de_rel = ''a.mp4'', de_is_file = True, de_mtime = 3, de_size = 10\<rparr>,
      \<lparr>de_rel = ''sub'', de_is_file = False, de_mtime = 9, de_size = 0\<rparr>,
      \<lparr>de_rel = ''sub/b.MOV'', de_is_file = True, de_mtime = 7, de_size = 20\<rparr>,
      \<lparr>de_rel = ''notes.txt'', de_is_file = True, de_mtime = 8, de_size = 5\<rparr>]"

definition walk_two :: "int dirent list" where
  \<comment> \<open>the same tree, walked in another order\<close>
  "walk_two =
     [\<lparr>de_rel = ''notes.txt'', de_is_file = True, de_mtime = 8, de_size = 5\<rparr>,
      \<lparr>de_rel = ''sub'', de_is_file = False, de_mtime = 9, de_size = 0\<rparr>,
      \<lparr>de_rel = ''sub/b.MOV'', de_is_file = True, de_mtime = 7, de_size = 20\<rparr>,
      \<lparr>de_rel = ''a.mp4'', de_is_file = True, de_mtime = 3, de_size = 10\<rparr>]"

definition readonly_world :: "(int, int) world" where
  \<comment> \<open>a tree with one video, no cache file, and nothing writable\<close>
  "readonly_world =
     \<lparr>w_resolve = (\<lambda>p. p),
      w_exists = (\<lambda>p. False),
      w_load = (\<lambda>p. Inl OSError),
      w_rglob = (\<lambda>p. [\<lparr>de_rel = ''a.mp4'', de_is_file = True, de_mtime = 3, de_size = 10\<rparr>]),
      w_time = 5,
      w_writable = (\<lambda>p. False),
      w_str_float = str_int\<rparr>"

definition stale_globals :: "(int, int) globals" where
  \<comment> \<open>a live index built at time 0, when the tree was empty\<close>
  "stale_globals =
     \<lparr>INDEX = \<lparr>idx_built_at = Some 0, idx_root = Some ''/srv/videos'', idx_items = [],
                idx_folders = [[]]\<rparr>,
      INDEX_CACHE_PATH = Some ''/srv/videos/.reels_index.json''\<rparr>"

section \<open>Strings and tokens\<close>

lemma str_in_sublist: "str_in q s \<longleftrightarrow> sublist q s"
  by (induction s) (simp_all add: sublist_Cons_right)

lemma lower_char_other:
  assumes "c \<notin> set ''ABCDEFGHIJKLMNOPQRSTUVWXYZ''"
  shows "lower_char c = c"
proof -
  have "map_of (zip ''ABCDEFGHIJKLMNOPQRSTUVWXYZ'' ''abcdefghijklmnopqrstuvwxyz'') c = None"
    using assms by simp
  then show ?thesis by (simp only: lower_char_def option.case)
qed

lemma isspace_lower_char: "isspace (lower_char c) = isspace c"
proof (cases "c \<in> set ''ABCDEFGHIJKLMNOPQRSTUVWXYZ''")
  case True
  then show ?thesis
    unfolding set_simps insert_iff empty_iff
    by (elim disjE FalseE) (simp_all add: lower_char_def isspace_def)
next
  case False
  show ?thesis by (simp only: lower_char_other[OF False])
qed

lemma pieces_nonempty: "pieces sep s \<noteq> []"
  by (induction s) (auto split: list.splits)

lemma split_go_pieces:
  "(insep \<Longrightarrow> cur = []) \<Longrightarrow> filter (\<lambda>w. w \<noteq> []) (split_go s cur insep) =
   filter (\<lambda>w. w \<noteq> []) ((rev cur @ hd (pieces is_sep s)) # tl (pieces is_sep s))"
proof (induction s arbitrary: cur insep)
  case Nil
  show ?case by simp
next
  case (Cons c cs)
  show ?case
    using pieces_nonempty[of is_sep cs]
    using Cons.prems by (cases "pieces is_sep cs") (auto simp: Cons.IH)
qed

lemma re_split_tokens:
  "filter (\<lambda>w. w \<noteq> []) (re_split q) = nonempty_pieces is_sep q"
  using pieces_nonempty[of is_sep q]
  by (cases "pieces is_sep q") (auto simp: re_split_def nonempty_pieces_def split_go_pieces)

lemma token_loop_sum:
  "token_loop ts f r acc =
   acc + sum_list (map (\<lambda>t. if str_in t f then 120 else if str_in t r then 60 else 0)
                    (filter (\<lambda>w. w \<noteq> []) ts))"
  by (induction ts arbitrary: acc) auto

lemma dropWhile_rstrip:
  assumes "dropWhile P xs = xs"
  shows "dropWhile P (rev (dropWhile P (rev xs))) = rev (dropWhile P (rev xs))"
proof (cases "rev (dropWhile P (rev xs))")
  case Nil
  show ?thesis by (simp only: Nil dropWhile.simps)
next
  case (Cons y ys)
  have "prefix (rev (dropWhile P (rev xs))) xs"
    by (metis prefixI rev_append rev_rev_ident takeWhile_dropWhile_id)
  with Cons obtain zs where xs: "xs = y # zs"
    by (auto simp: prefix_def)
  with assms have "\<not> P y"
    by (metis dropWhile_eq_Cons_conv)
  with Cons show ?thesis by simp
qed

lemma strip_idem: "strip (strip s) = strip s"
proof -
  let ?t = "dropWhile isspace s"
  have "dropWhile isspace ?t = ?t" by simp
  then have "dropWhile isspace (strip s) = strip s"
    unfolding strip_def by (rule dropWhile_rstrip)
  then show ?thesis
    by (simp add: strip_def)
qed

lemma lower_strip: "lower (strip s) = strip (lower s)"
  by (simp add: lower_def strip_def dropWhile_map rev_map comp_def isspace_lower_char)

lemma score_match_strip: "score_match (strip q) f r = score_match q f r"
  by (simp add: score_match_def lower_strip strip_idem)


lemma length_lower [simp]: "length (lower s) = length s"
  by (simp add: lower_def)

lemma lower_eq_Nil [simp]: "lower s = [] \<longleftrightarrow> s = []"
  by (simp add: lower_def)

lemma score_loop_eq:
  "score_loop q its =
   filter (\<lambda>p. 0 < fst p) (map (\<lambda>it. (score_match q (filename it) (relpath it), it)) its)"
  by (induction its) (simp_all add: Let_def)

lemma set_sort_reverse: "set (sort_reverse k xs) = set xs"
  by (simp add: sort_reverse_def)

lemma sort_reverse_stable:
  "filter (\<lambda>x. k x = c) (sort_reverse k xs) = filter (\<lambda>x. k x = c) xs"
  by (simp add: sort_reverse_def rev_filter[symmetric] sort_key_stable)

lemma sort_reverse_descending:
  "sorted_wrt (\<lambda>a b. k b \<le> k a) (sort_reverse k xs)"
proof -
  have "sorted (map k (sort_key k (rev xs)))" by simp
  then have "sorted_wrt (\<lambda>a b. k a \<le> k b) (sort_key k (rev xs))"
    by (simp add: sorted_map)
  then show ?thesis
    by (simp add: sort_reverse_def sorted_wrt_rev)
qed


lemma score_match_ladder:
  "strip (lower q) \<noteq> [] \<Longrightarrow>
   score_match q f r = ladder_score (strip (lower q)) (lower f) (lower r)"
  by (simp add: score_match_def ladder_score_def Let_def str_in_sublist token_loop_sum
      re_split_tokens cong: if_cong)

lemma strip_Nil [simp]: "strip [] = []"
  by (simp add: strip_def)

lemma filter_items_query:
  "strip q \<noteq> [] \<Longrightarrow>
   filter_items its q fol sw =
   map snd (sort_reverse fst (score_loop (strip q) (filter_items its [] fol sw)))"
  by (simp add: filter_items_def Let_def)

lemma scored_pairs:
  "p \<in> set (score_loop q S) \<Longrightarrow> fst p = score_match q (filename (snd p)) (relpath (snd p))"
  by (auto simp: score_loop_eq)

lemma filter_items_score_class:
  assumes "strip q \<noteq> []"
  shows "filter (\<lambda>it. score_match q (filename it) (relpath it) = k) (filter_items its q fol sw) =
         (if 0 < k
          then filter (\<lambda>it. score_match q (filename it) (relpath it) = k)
                 (filter_items its [] fol sw)
          else [])"
proof -
  let ?S = "filter_items its [] fol sw"
  let ?sc = "\<lambda>it. score_match q (filename it) (relpath it)"
  let ?L = "score_loop (strip q) ?S"
  have pairs: "fst p = ?sc (snd p)" if "p \<in> set ?L" for p
    using scored_pairs[OF that] by (simp add: score_match_strip)
  have "filter (\<lambda>it. ?sc it = k) (filter_items its q fol sw) =
        map snd (filter (\<lambda>p. ?sc (snd p) = k) (sort_reverse fst ?L))"
    by (simp add: filter_items_query[OF assms] filter_map comp_def)
  also have "filter (\<lambda>p. ?sc (snd p) = k) (sort_reverse fst ?L) =
             filter (\<lambda>p. fst p = k) (sort_reverse fst ?L)"
    by (rule filter_cong) (auto simp: set_sort_reverse pairs)
  also have "\<dots> = filter (\<lambda>p. fst p = k) ?L"
    by (rule sort_reverse_stable)
  also have "map snd \<dots> = filter (\<lambda>it. 0 < ?sc it \<and> ?sc it = k) ?S"
    by (simp add: score_loop_eq score_match_strip filter_map comp_def conj_commute)
  also have "\<dots> = (if 0 < k then filter (\<lambda>it. ?sc it = k) ?S else [])"
    by (auto simp: filter_empty_conv intro: filter_cong)
  finally show ?thesis .
qed

lemma filter_items_descending:
  assumes "strip q \<noteq> []"
  shows "sorted_wrt (\<lambda>a b. score_match q (filename b) (relpath b)
                          \<le> score_match q (filename a) (relpath a))
           (filter_items its q fol sw)"
proof -
  let ?S = "filter_items its [] fol sw"
  let ?sc = "\<lambda>it. score_match q (filename it) (relpath it)"
  let ?L = "score_loop (strip q) ?S"
  have pairs: "fst p = ?sc (snd p)" if "p \<in> set ?L" for p
    using scored_pairs[OF that] by (simp add: score_match_strip)
  have "sorted_wrt (\<lambda>a b. fst b \<le> fst a) (sort_reverse fst ?L)"
    by (rule sort_reverse_descending)
  then have "sorted_wrt (\<lambda>a b. ?sc (snd b) \<le> ?sc (snd a)) (sort_reverse fst ?L)"
    by (rule sorted_wrt_mono_rel[rotated]) (auto simp: set_sort_reverse pairs)
  then show ?thesis
    by (simp add: filter_items_query[OF assms] sorted_wrt_map)
qed


lemma strip_lower_nonempty: "strip (lower q) \<noteq> [] \<Longrightarrow> strip q \<noteq> []"
  by (metis lower_eq_Nil lower_strip)

section \<open>Ranking and filtering\<close>

text \<open>
  Claim C6, as the program has it. Let the query \<open>q\<close> be non-empty once it is put in lower
  case and stripped of surrounding white space, and call that form \<open>q'\<close>. Every entry is
  scored by the ladder on \<open>q'\<close> and the lower-case file name and relative path (which are as
  long as the originals): 1000 when \<open>q'\<close> equals the file name; else 800 minus the
  difference of the lengths when \<open>q'\<close> occurs in the file name; else 500 minus the
  difference of the lengths when \<open>q'\<close> occurs in the relative path; else 120 for each
  non-empty token of \<open>q'\<close> that occurs in the file name and 60 for each other token that
  occurs in the relative path. Of the entries that survive the folder and prefix filters,
  those with a score of 0 or less are dropped, and the others are returned by descending
  score, entries of equal score in catalog order: for every score \<open>k\<close>, the entries of
  score \<open>k\<close> in the result are, in the same order, those of the survivors when \<open>k\<close> is
  positive, and none otherwise.
\<close>

theorem ranking_ladder_and_order:
  "strip (lower q) \<noteq> [] \<Longrightarrow>
     score_match q f r = ladder_score (strip (lower q)) (lower f) (lower r)
   \<and> length (lower f) = length f \<and> length (lower r) = length r
   \<and> filter (\<lambda>it. score_match q (filename it) (relpath it) = k) (filter_items its q fol sw) =
       (if 0 < k
        then filter (\<lambda>it. score_match q (filename it) (relpath it) = k)
               (filter_items its [] fol sw)
        else [])
   \<and> sorted_wrt (\<lambda>a b. score_match q (filename b) (relpath b)
                          \<le> score_match q (filename a) (relpath a))
         (filter_items its q fol sw)"
  using score_match_ladder[of q f r] filter_items_score_class[of q k its fol sw]
    filter_items_descending[of q its fol sw] strip_lower_nonempty[of q]
  by simp

theorem ranking_ladder_and_order_witness:
  "strip (lower ''Cat '') \<noteq> [] \<and>
   (score_match ''Cat '' ''cat.mp4'' ''a/cat.mp4'' =
      ladder_score (strip (lower ''Cat '')) (lower ''cat.mp4'') (lower ''a/cat.mp4'')
    \<and> length (lower ''cat.mp4'') = length ''cat.mp4''
    \<and> length (lower ''a/cat.mp4'') = length ''a/cat.mp4''
    \<and> filter (\<lambda>it. score_match ''Cat '' (filename it) (relpath it) = 796)
          (filter_items folder_catalog ''Cat '' [] None) =
        (if (0::int) < 796
         then filter (\<lambda>it. score_match ''Cat '' (filename it) (relpath it) = 796)
                (filter_items folder_catalog [] [] None)
         else [])
    \<and> sorted_wrt (\<lambda>a b. score_match ''Cat '' (filename b) (relpath b)
                           \<le> score_match ''Cat '' (filename a) (relpath a))
          (filter_items folder_catalog ''Cat '' [] None))"
proof -
  have h: "strip (lower ''Cat '') \<noteq> []"
    by code_simp
  show ?thesis
    using h ranking_ladder_and_order[OF h] by (rule conjI)
qed

text \<open>
  Claim C6 as it was stated fails: an entry whose score is not 0 is dropped. The query
  \<open>dd\<close> occurs in a relative path that is 604 characters longer than it, so the entry
  scores \<open>500 - 604\<close>, and \<open>filter_items\<close> keeps only positive scores.
\<close>

theorem negative_score_dropped:
  "score_match ''dd'' ''x.mp4'' (replicate 600 CHR ''d'' @ ''/x.mp4'') = - 104
   \<and> filter_items
        [\<lparr>relpath = replicate 600 CHR ''d'' @ ''/x.mp4'', filename = ''x.mp4'',
          folder = replicate 600 CHR ''d'', mtime = 0::int, size_bytes = 1, item_id = ''i''\<rparr>]
        ''dd'' [] None = []"
  by code_simp

text \<open>
  The ranking example of the specification: for the query \<open>vacation\<close> the three file
  names that contain the query come first, the shortest first, the entry that matches only
  through its relative path follows, and the entry that does not match is dropped.
\<close>

lemma ranking_example:
  "map filename
     (filter_items
        [\<lparr>relpath = ''vacation/clip.mp4'', filename = ''clip.mp4'', folder = ''vacation'',
          mtime = 5::int, size_bytes = 1, item_id = ''i1''\<rparr>,
         \<lparr>relpath = ''my_vacation_photos.mp4'', filename = ''my_vacation_photos.mp4'',
          folder = [], mtime = 4, size_bytes = 1, item_id = ''i2''\<rparr>,
         \<lparr>relpath = ''beach.mp4'', filename = ''beach.mp4'', folder = [], mtime = 3,
          size_bytes = 1, item_id = ''i3''\<rparr>,
         \<lparr>relpath = ''vacation_trip.mp4'', filename = ''vacation_trip.mp4'', folder = [],
          mtime = 2, size_bytes = 1, item_id = ''i4''\<rparr>,
         \<lparr>relpath = ''vacation.mp4'', filename = ''vacation.mp4'', folder = [], mtime = 1,
          size_bytes = 1, item_id = ''i5''\<rparr>]
        ''vacation'' [] None) =
   [''vacation.mp4'', ''vacation_trip.mp4'', ''my_vacation_photos.mp4'', ''clip.mp4'']"
  by code_simp

text \<open>
  What does hold between the tiers: a file name that contains the query, and is less than
  300 characters longer than it, scores above every match through the relative path.
\<close>

lemma filename_tier_above_path_tier:
  assumes "strip (lower q) \<noteq> []"
    and "str_in (strip (lower q)) (lower f1)"
    and "int (length f1) - int (length (strip (lower q))) < 300"
    and "\<not> str_in (strip (lower q)) (lower f2)"
    and "str_in (strip (lower q)) (lower r2)"
  shows "score_match q f2 r2 < score_match q f1 r1"
proof -
  have "sublist (strip (lower q)) (lower r2)"
    using assms(5) by (simp only: str_in_sublist)
  then have "length (strip (lower q)) \<le> length (lower r2)"
    by (rule sublist_length_le)
  moreover have "strip (lower q) \<noteq> lower f2"
    using assms(4) by (auto simp: str_in_sublist)
  ultimately show ?thesis
    using assms by (auto simp: score_match_def Let_def)
qed

text \<open>
  Claim C2 asks that an entry whose file name contains the query ranks strictly above an
  entry that matches only through tokens. The program does not do so for a query of seven
  tokens: the query \<open>a b c d e f g\<close> occurs in the first file name, which scores
  \<open>800 - 4 = 796\<close>; it occurs neither in the second file name nor in its relative path,
  where each of its seven tokens occurs in the file name, which scores \<open>7 * 120 = 840\<close>.
  The entry matched by tokens only is returned first.
\<close>

theorem token_match_outranks_filename_match:
  "str_in ''a b c d e f g'' (lower ''a b c d e f g.mp4'')
   \<and> \<not> str_in ''a b c d e f g'' (lower ''g f e d c b a.mp4'')
   \<and> score_match ''a b c d e f g'' ''a b c d e f g.mp4'' ''a b c d e f g.mp4'' = 796
   \<and> score_match ''a b c d e f g'' ''g f e d c b a.mp4'' ''g f e d c b a.mp4'' = 840
   \<and> filter_items
        [\<lparr>relpath = ''a b c d e f g.mp4'', filename = ''a b c d e f g.mp4'',
          folder = [], mtime = 2::int, size_bytes = 1, item_id = ''i1''\<rparr>,
         \<lparr>relpath = ''g f e d c b a.mp4'', filename = ''g f e d c b a.mp4'',
          folder = [], mtime = 1, size_bytes = 1, item_id = ''i2''\<rparr>]
        ''a b c d e f g'' [] None =
       [\<lparr>relpath = ''g f e d c b a.mp4'', filename = ''g f e d c b a.mp4'',
          folder = [], mtime = 1, size_bytes = 1, item_id = ''i2''\<rparr>,
        \<lparr>relpath = ''a b c d e f g.mp4'', filename = ''a b c d e f g.mp4'',
          folder = [], mtime = 2, size_bytes = 1, item_id = ''i1''\<rparr>]"
  by code_simp

text \<open>
  Claim C9, as the program has it. For a query that is empty once stripped of surrounding
  white space, \<open>filter_items\<close> returns, in catalog order, exactly the entries that pass two
  tests. The folder scope is first normalised by \<open>safe_norm\<close> (backslashes become slashes,
  runs of slashes collapse, leading slashes are removed): if the normalised scope is
  non-empty, the folder of the entry equals it or starts with it followed by a slash. The
  prefix is first stripped of surrounding white space and put in lower case: if it is then
  non-empty, the lower-case file name of the entry starts with it.
\<close>

theorem empty_query_filter:
  "strip q = [] \<Longrightarrow>
   filter_items its q fol sw =
   filter (\<lambda>it. (safe_norm fol = [] \<or> folder it = safe_norm fol
                  \<or> prefix (safe_norm fol @ ''/'') (folder it))
               \<and> (case sw of
                      None \<Rightarrow> True
                    | Some p \<Rightarrow> lower (strip p) = []
                               \<or> prefix (lower (strip p)) (lower (filename it)))) its"
  by (cases sw) (auto simp: filter_items_def Let_def startswith_def intro: filter_cong)

theorem empty_query_filter_witness:
  "strip '' '' = []
   \<and> map relpath (filter_items folder_catalog '' '' ''/a'' (Some '' B'')) =
       [''a/Beach.mp4'', ''a/b/bird.mp4'']"
proof -
  have h: "strip '' '' = []"
    by code_simp
  have "map relpath (filter_items folder_catalog '' '' ''/a'' (Some '' B'')) =
        [''a/Beach.mp4'', ''a/b/bird.mp4'']"
    unfolding empty_query_filter[OF h] by code_simp
  with h show ?thesis
    by (rule conjI)
qed

text \<open>
  Claim C9 as it was stated fails for a folder scope that \<open>safe_norm\<close> changes and for a
  prefix with surrounding white space. The folder \<open>a\<close> of the entry neither equals the
  scope \<open>/a\<close> nor starts with \<open>/a/\<close>, and its file name does not start, in any case of
  the letters, with the prefix made of a blank and \<open>C\<close>. The entry is returned all the
  same, because the scope is normalised to \<open>a\<close> and the prefix is stripped to \<open>C\<close> before
  the comparisons.
\<close>

theorem unnormalised_scope_matches:
  "folder \<lparr>relpath = ''a/cat.mp4'', filename = ''cat.mp4'', folder = ''a'', mtime = 1::int,
            size_bytes = 10, item_id = ''i1''\<rparr> \<noteq> ''/a''
   \<and> \<not> prefix (''/a'' @ ''/'')
         (folder \<lparr>relpath = ''a/cat.mp4'', filename = ''cat.mp4'', folder = ''a'', mtime = 1::int,
                   size_bytes = 10, item_id = ''i1''\<rparr>)
   \<and> \<not> prefix (lower '' C'')
         (lower (filename \<lparr>relpath = ''a/cat.mp4'', filename = ''cat.mp4'', folder = ''a'',
                            mtime = 1::int, size_bytes = 10, item_id = ''i1''\<rparr>))
   \<and> filter_items
        [\<lparr>relpath = ''a/cat.mp4'', filename = ''cat.mp4'', folder = ''a'', mtime = 1::int,
          size_bytes = 10, item_id = ''i1''\<rparr>] [] ''/a'' (Some '' C'') =
       [\<lparr>relpath = ''a/cat.mp4'', filename = ''cat.mp4'', folder = ''a'', mtime = 1::int,
          size_bytes = 10, item_id = ''i1''\<rparr>]"
  by code_simp

section \<open>Pagination and query parameters\<close>

lemma py_slice_nat:
  "py_slice xs (int i) (int i + int j) = take j (drop i xs)"
proof (cases "i \<le> length xs")
  case True
  show ?thesis
  proof (cases "i + j \<le> length xs")
    case True
    with \<open>i \<le> length xs\<close> show ?thesis
      by (simp add: py_slice_def Let_def min_def)
  next
    case False
    with \<open>i \<le> length xs\<close> have "nat (int (length xs) - int i) = length xs - i"
      by simp
    with False \<open>i \<le> length xs\<close> show ?thesis
      by (simp add: py_slice_def Let_def min_def)
  qed
next
  case False
  then show ?thesis
    by (simp add: py_slice_def Let_def min_def)
qed

lemma py_slice_window:
  "0 \<le> a \<Longrightarrow> 0 \<le> b \<Longrightarrow> py_slice xs a (a + b) = take (nat b) (drop (nat a) xs)"
  using py_slice_nat[of xs "nat a" "nat b"] by simp

lemma py_slice_head: "0 \<le> b \<Longrightarrow> py_slice xs 0 b = take (nat b) xs"
  using py_slice_window[of 0 b xs] by simp

text \<open>
  Claim C8. When the offset and the limit of a feed request parse as the integers \<open>off\<close>
  and \<open>lim\<close>, the response has status 200; its offset is \<open>off\<close> raised to at least 0, its
  limit is \<open>lim\<close> brought into the range from 1 to 50, its items are the entries of the
  filtered and ranked list from the offset on, at most as many as the limit, and its total
  is the length of the whole filtered list. When the offset is at or beyond the end of the
  list, the items are empty.
\<close>

theorem feed_pagination:
  "py_int (args_get args ''offset'' ''0'') = Some off \<Longrightarrow>
   py_int (args_get args ''limit'' (str_int DEFAULT_PAGE_SIZE)) = Some lim \<Longrightarrow>
     api_feed its args =
       (Json_page
          \<lparr>pg_total =
             int (length (filter_items its (args_get args ''q'' []) (args_get args ''folder'' [])
                            (starts_with_arg args))),
           pg_offset = max 0 off,
           pg_limit = max 1 (min lim 50),
           pg_items =
             map page_entry
               (take (nat (max 1 (min lim 50)))
                  (drop (nat (max 0 off))
                     (filter_items its (args_get args ''q'' []) (args_get args ''folder'' [])
                        (starts_with_arg args))))\<rparr>,
        200)
   \<and> (int (length (filter_items its (args_get args ''q'' []) (args_get args ''folder'' [])
                      (starts_with_arg args))) \<le> max 0 off \<longrightarrow>
        take (nat (max 1 (min lim 50)))
          (drop (nat (max 0 off))
             (filter_items its (args_get args ''q'' []) (args_get args ''folder'' [])
                (starts_with_arg args))) = [])"
  by (simp add: api_feed_def Let_def make_page_def MAX_PAGE_SIZE_def py_slice_window max_def)

theorem feed_pagination_witness:
  "py_int (args_get [(''offset'', ''5''), (''limit'', ''99'')] ''offset'' ''0'') = Some 5
   \<and> py_int (args_get [(''offset'', ''5''), (''limit'', ''99'')] ''limit''
               (str_int DEFAULT_PAGE_SIZE)) = Some 99
   \<and> api_feed demo_items [(''offset'', ''5''), (''limit'', ''99'')] =
       (Json_page \<lparr>pg_total = 1, pg_offset = 5, pg_limit = 50, pg_items = []\<rparr>, 200)"
proof -
  have h1: "py_int (args_get [(''offset'', ''5''), (''limit'', ''99'')] ''offset'' ''0'') = Some 5"
    by code_simp
  have h2: "py_int (args_get [(''offset'', ''5''), (''limit'', ''99'')] ''limit''
                      (str_int DEFAULT_PAGE_SIZE)) = Some 99"
    by code_simp
  have "api_feed demo_items [(''offset'', ''5''), (''limit'', ''99'')] =
        (Json_page \<lparr>pg_total = 1, pg_offset = 5, pg_limit = 50, pg_items = []\<rparr>, 200)"
    unfolding feed_pagination[OF h1 h2, THEN conjunct1] by code_simp
  with h1 h2 show ?thesis
    by (intro conjI)
qed

lemma feed_page_example:
  "api_feed folder_catalog [(''offset'', ''1''), (''limit'', ''2'')] =
     (Json_page
        \<lparr>pg_total = 4, pg_offset = 1, pg_limit = 2,
         pg_items =
           [\<lparr>pi_id = ''i2'', pi_filename = ''bird.mp4'', pi_folder = ''a/b'',
             pi_relpath = ''a/b/bird.mp4'', pi_url = ''/v/i2'', pi_mtime = 3, pi_size = 10\<rparr>,
            \<lparr>pi_id = ''i3'', pi_filename = ''boat.mp4'', pi_folder = ''ab'',
             pi_relpath = ''ab/boat.mp4'', pi_url = ''/v/i3'', pi_mtime = 2, pi_size = 10\<rparr>]\<rparr>,
      200)"
  by code_simp

text \<open>
  Claim C3, as the program has it. On the feed endpoint an offset or a limit that does not
  parse as an integer gives the error body \<open>bad offset/limit\<close> with status 400. The
  suggestion endpoint reads no offset, and a limit that does not parse is replaced by 8:
  the request is answered with status 200 and the first eight matches.
\<close>

theorem unparseable_offset_limit:
  "(py_int (args_get args ''offset'' ''0'') = None
      \<or> py_int (args_get args ''limit'' (str_int DEFAULT_PAGE_SIZE)) = None \<longrightarrow>
    api_feed its args = (Json_error ''bad offset/limit'', 400))
   \<and> (py_int (args_get args ''limit'' ''8'') = None \<longrightarrow>
        api_suggest its args =
          (Json_suggest
             (map suggest_entry
                (take 8 (filter_items its (strip (args_get args ''q'' []))
                           (args_get args ''folder'' []) (starts_with_arg args)))),
           200))"
  by (auto simp: api_feed_def api_suggest_def Let_def py_slice_head split: option.splits)

theorem unparseable_offset_limit_witness:
  "py_int (args_get [(''offset'', ''x''), (''limit'', ''abc'')] ''offset'' ''0'') = None
   \<and> py_int (args_get [(''offset'', ''x''), (''limit'', ''abc'')] ''limit'' ''8'') = None
   \<and> api_feed demo_items [(''offset'', ''x''), (''limit'', ''abc'')] =
       (Json_error ''bad offset/limit'', 400)
   \<and> api_suggest demo_items [(''offset'', ''x''), (''limit'', ''abc'')] =
       (Json_suggest
          [\<lparr>sg_id = ''i1'', sg_filename = ''a.mp4'', sg_folder = [], sg_relpath = ''a.mp4''\<rparr>],
        200)"
proof -
  have h1: "py_int (args_get [(''offset'', ''x''), (''limit'', ''abc'')] ''offset'' ''0'') = None"
    by code_simp
  have h2: "py_int (args_get [(''offset'', ''x''), (''limit'', ''abc'')] ''limit'' ''8'') = None"
    by code_simp
  note t = unparseable_offset_limit[of "[(''offset'', ''x''), (''limit'', ''abc'')]" demo_items]
  have f: "api_feed demo_items [(''offset'', ''x''), (''limit'', ''abc'')] =
           (Json_error ''bad offset/limit'', 400)"
    using t h1 by blast
  have s: "api_suggest demo_items [(''offset'', ''x''), (''limit'', ''abc'')] =
           (Json_suggest
              (map suggest_entry
                 (take 8 (filter_items demo_items
                            (strip (args_get [(''offset'', ''x''), (''limit'', ''abc'')] ''q'' []))
                            (args_get [(''offset'', ''x''), (''limit'', ''abc'')] ''folder'' [])
                            (starts_with_arg [(''offset'', ''x''), (''limit'', ''abc'')])))),
            200)"
    using t h2 by blast
  have "api_suggest demo_items [(''offset'', ''x''), (''limit'', ''abc'')] =
        (Json_suggest
           [\<lparr>sg_id = ''i1'', sg_filename = ''a.mp4'', sg_folder = [], sg_relpath = ''a.mp4''\<rparr>],
         200)"
    unfolding s by code_simp
  with h1 h2 f show ?thesis
    by (intro conjI)
qed

text \<open>
  Claim C3 as it was stated fails on the suggestion endpoint: the limit \<open>abc\<close> does not
  parse, and the request is answered with status 200, not 400.
\<close>

theorem suggest_defaults_bad_limit:
  "py_int ''abc'' = None
   \<and> api_suggest demo_items [(''limit'', ''abc'')] =
       (Json_suggest
          [\<lparr>sg_id = ''i1'', sg_filename = ''a.mp4'', sg_folder = [], sg_relpath = ''a.mp4''\<rparr>],
        200)"
  by code_simp

section \<open>Path checks\<close>

lemma pieces_append_sep:
  "sep c \<Longrightarrow> pieces sep (a @ c # b) = pieces sep a @ pieces sep b"
proof (induction a)
  case Nil
  then show ?case by simp
next
  case (Cons x a)
  then show ?case
    using pieces_nonempty[of sep a] by (cases "pieces sep a") auto
qed

lemma path_parts_append:
  "path_parts (r @ ''/'' @ rest) = path_parts r @ path_parts rest"
  by (simp add: path_parts_def nonempty_pieces_def pieces_append_sep)

lemma is_within_root_sound:
  assumes "is_within_root fs r0 t0"
  shows "\<exists>r t. fs_resolve fs r0 = Some r \<and> fs_resolve fs t0 = Some t
               \<and> prefix (path_parts r) (path_parts t)"
proof -
  from assms obtain r t where r: "fs_resolve fs r0 = Some r"
    and t: "fs_resolve fs t0 = Some t"
    and c: "prefix (r @ ''/'') t \<or> t = r"
    by (auto simp: is_within_root_def startswith_def os_sep_def split: option.splits)
  from c have "prefix (path_parts r) (path_parts t)"
  proof
    assume "prefix (r @ ''/'') t"
    then obtain rest where "t = r @ ''/'' @ rest"
      by (auto simp: prefix_def)
    then show ?thesis
      by (simp only: path_parts_append prefixI)
  next
    assume "t = r"
    then show ?thesis by simp
  qed
  with r t show ?thesis by blast
qed

text \<open>
  Claim C7. Let \<open>r\<close> be the canonical root and \<open>t\<close> the canonical target of a request, both
  fixed points of path resolution. If the components of \<open>r\<close> are not an initial segment of
  the components of \<open>t\<close>, that is, \<open>t\<close> is neither the root nor below it, then the
  stream-by-id endpoint, for an id that names an entry whose path resolves to \<open>t\<close>, and the
  open-by-path endpoint, for a path that resolves to \<open>t\<close>, both answer 404. Nothing is
  assumed about how resolution reached \<open>t\<close> (dot-dot segments, symbolic links) nor about
  the existence of a file at \<open>t\<close>.
\<close>

theorem path_escape_rejected:
  assumes "fs_resolve fs root_dir = Some r"
    and "fs_resolve fs r = Some r"
    and "fs_resolve fs t = Some t"
    and "\<not> prefix (path_parts r) (path_parts t)"
  shows "(get_item_by_id its iid = Some it \<and> fs_resolve fs (path_join r (relpath it)) = Some t
            \<longrightarrow> stream_video fs root_dir its iid range_header = (Abort 404, []))
       \<and> (fs_resolve fs (path_join r (safe_norm (unquote rel0))) = Some t
            \<longrightarrow> open_file unquote fs root_dir rel0 = Abort 404)"
proof -
  have "\<not> is_within_root fs r t"
    using is_within_root_sound[of fs r t] assms by auto
  with assms(1) show ?thesis
    by (auto simp: stream_video_def open_file_def Let_def)
qed

theorem path_escape_rejected_witness:
  "fs_resolve escape_fs ''/srv/videos'' = Some ''/srv/videos''
   \<and> fs_resolve escape_fs ''/srv/secret.mp4'' = Some ''/srv/secret.mp4''
   \<and> \<not> prefix (path_parts ''/srv/videos'') (path_parts ''/srv/secret.mp4'')
   \<and> get_item_by_id escape_items ''x1'' = Some (hd escape_items)
   \<and> fs_resolve escape_fs (path_join ''/srv/videos'' (relpath (hd escape_items))) =
       Some ''/srv/secret.mp4''
   \<and> fs_resolve escape_fs (path_join ''/srv/videos'' (safe_norm (id ''../secret.mp4''))) =
       Some ''/srv/secret.mp4''
   \<and> fs_exists escape_fs ''/srv/secret.mp4''
   \<and> stream_video escape_fs ''/srv/videos'' escape_items ''x1'' None = (Abort 404, [])
   \<and> open_file id escape_fs ''/srv/videos'' ''../secret.mp4'' = Abort 404"
proof -
  have h1: "fs_resolve escape_fs ''/srv/videos'' = Some ''/srv/videos''"
    by code_simp
  have h2: "fs_resolve escape_fs ''/srv/secret.mp4'' = Some ''/srv/secret.mp4''"
    by code_simp
  have h3: "\<not> prefix (path_parts ''/srv/videos'') (path_parts ''/srv/secret.mp4'')"
    by code_simp
  have h4: "get_item_by_id escape_items ''x1'' = Some (hd escape_items)"
    by code_simp
  have h5: "fs_resolve escape_fs (path_join ''/srv/videos'' (relpath (hd escape_items))) =
            Some ''/srv/secret.mp4''"
    by code_simp
  have h6: "fs_resolve escape_fs (path_join ''/srv/videos'' (safe_norm (id ''../secret.mp4''))) =
            Some ''/srv/secret.mp4''"
    by code_simp
  have h7: "fs_exists escape_fs ''/srv/secret.mp4''"
    by code_simp
  note t = path_escape_rejected[OF h1 h1 h2 h3, of escape_items "''x1''" "hd escape_items"
      None id "''../secret.mp4''"]
  have s: "stream_video escape_fs ''/srv/videos'' escape_items ''x1'' None = (Abort 404, [])"
    using t h4 h5 by blast
  have p: "open_file id escape_fs ''/srv/videos'' ''../secret.mp4'' = Abort 404"
    using t h6 by blast
  from h1 h2 h3 h4 h5 h6 h7 s p show ?thesis
    by (intro conjI)
qed

section \<open>Range requests\<close>












lemma range_example_inner:
  "stream_video demo_fs ''/srv/videos'' demo_items ''i1'' (Some ''bytes=200-299'') =
     (Response (replicate 100 7) 206 ''video/mp4''
        [(''Content-Range'', ''bytes 200-299/1000''), (''Accept-Ranges'', ''bytes''),
         (''Content-Length'', ''100'')],
      [File_read ''/srv/videos/a.mp4'' 200 100])"
  by code_simp

lemma range_example_open_end:
  "stream_video demo_fs ''/srv/videos'' demo_items ''i1'' (Some ''bytes=900-'') =
     (Response (replicate 100 7) 206 ''video/mp4''
        [(''Content-Range'', ''bytes 900-999/1000''), (''Accept-Ranges'', ''bytes''),
         (''Content-Length'', ''100'')],
      [File_read ''/srv/videos/a.mp4'' 900 100])"
  by code_simp

lemma range_example_unsatisfiable:
  "stream_video demo_fs ''/srv/videos'' demo_items ''i1'' (Some ''bytes=500-100'') =
     (Abort 416, [])"
  by code_simp



lemma empty_file_open_range:
  "stream_video empty_file_fs ''/srv/videos'' demo_items ''i1'' (Some ''bytes=0-'') =
     (Abort 416, [])"
  by code_simp

section \<open>Entry identifiers\<close>

lemma compute_id_eq:
  "compute_id sf rel mt sz =
   take 16 (sha1_hex (encode_utf8 rel @ encode_utf8 (sf mt) @ encode_utf8 (str_int sz)))"
  by (simp add: compute_id_def hashlib_sha1_def update_def hexdigest_def)

lemma length_hex32: "length (hex32 w) = 8"
  by (simp add: hex32_def)

lemma length_sha1_hex: "length (sha1_hex m) = 40"
  by (cases "sha1 m") (simp add: sha1_hex_def length_hex32)

lemma hex_char_in: "hex_char n \<in> set hex_digits"
proof -
  have "n mod 16 < length hex_digits"
    by (simp add: hex_digits_def)
  then show ?thesis
    unfolding hex_char_def by (rule nth_mem)
qed

lemma set_hex32: "set (hex32 w) \<subseteq> set hex_digits"
  using hex_char_in by (auto simp: hex32_def)

lemma set_sha1_hex: "set (sha1_hex m) \<subseteq> set hex_digits"
  using set_hex32 by (cases "sha1 m") (auto simp: sha1_hex_def)

lemma build_loop_items:
  "fst (build_loop sf walk (its, fols)) = its @ map (make_item sf) (filter is_video walk)"
  by (induction walk arbitrary: its fols) (simp_all add: Let_def)

lemma build_index_items:
  "set (idx_items (build_index sf now root_dir walk)) = make_item sf ` {p \<in> set walk. is_video p}"
  using build_loop_items[of sf walk "[]" "[[]]"]
  by (auto simp: build_index_def set_sort_reverse split: prod.splits)

lemma make_item_id:
  "item_id (make_item sf p) =
   compute_id sf (relpath (make_item sf p)) (mtime (make_item sf p)) (size_bytes (make_item sf p))"
  by (simp add: make_item_def Let_def)

text \<open>
  Claim C5. The id that \<open>compute_id\<close> gives is the first 16 characters of the hexadecimal
  SHA-1 digest of the bytes of the relative path, followed by those of the text of the
  modification time, followed by those of the decimal text of the size; it has 16
  characters, all of them hexadecimal digits. Every entry of a catalog that \<open>build_index\<close>
  builds carries the id computed from its own relative path, modification time and size.
  Two builds over walks that meet the same files with the same modification times and
  sizes, in any order and at any time, give the same entries, hence the same id for every
  file.
\<close>

theorem entry_ids_stable:
  "compute_id sf rel mt sz =
     take 16 (sha1_hex (encode_utf8 rel @ encode_utf8 (sf mt) @ encode_utf8 (str_int sz)))
   \<and> length (compute_id sf rel mt sz) = 16
   \<and> set (compute_id sf rel mt sz) \<subseteq> set hex_digits
   \<and> (\<forall>it \<in> set (idx_items (build_index sf now root_dir walk)).
         item_id it = compute_id sf (relpath it) (mtime it) (size_bytes it))
   \<and> (set walk' = set walk \<longrightarrow>
        set (idx_items (build_index sf now' root_dir walk')) =
        set (idx_items (build_index sf now root_dir walk)))"
proof -
  have "set (take 16 (sha1_hex m)) \<subseteq> set hex_digits" for m
    using set_sha1_hex[of m] set_take_subset[of 16 "sha1_hex m"] by blast
  then show ?thesis
    by (auto simp: compute_id_eq length_sha1_hex build_index_items make_item_id)
qed

theorem entry_ids_stable_witness:
  "set walk_two = set walk_one
   \<and> make_item str_int (hd walk_one)
       \<in> set (idx_items (build_index str_int (1::int) ''/srv/videos'' walk_one))
   \<and> item_id (make_item str_int (hd walk_one)) =
       compute_id str_int (relpath (make_item str_int (hd walk_one)))
         (mtime (make_item str_int (hd walk_one))) (size_bytes (make_item str_int (hd walk_one)))
   \<and> length (item_id (make_item str_int (hd walk_one))) = 16
   \<and> set (idx_items (build_index str_int (2::int) ''/srv/videos'' walk_two)) =
       set (idx_items (build_index str_int (1::int) ''/srv/videos'' walk_one))"
proof -
  have h1: "set walk_two = set walk_one"
    by (auto simp: walk_one_def walk_two_def)
  have "is_video (hd walk_one)"
    by code_simp
  moreover have "hd walk_one \<in> set walk_one"
    by (simp add: walk_one_def)
  ultimately have h2: "make_item str_int (hd walk_one)
      \<in> set (idx_items (build_index str_int (1::int) ''/srv/videos'' walk_one))"
    by (simp add: build_index_items)
  note t = entry_ids_stable[where sf = str_int and now = "1::int" and now' = "2::int"
      and root_dir = "''/srv/videos''" and walk = walk_one and walk' = walk_two
      and rel = "relpath (make_item str_int (hd walk_one))"
      and mt = "mtime (make_item str_int (hd walk_one))"
      and sz = "size_bytes (make_item str_int (hd walk_one))"]
  from t h2 have a: "item_id (make_item str_int (hd walk_one)) =
      compute_id str_int (relpath (make_item str_int (hd walk_one)))
        (mtime (make_item str_int (hd walk_one))) (size_bytes (make_item str_int (hd walk_one)))"
    by blast
  from t have "length (compute_id str_int (relpath (make_item str_int (hd walk_one)))
        (mtime (make_item str_int (hd walk_one)))
        (size_bytes (make_item str_int (hd walk_one)))) = 16"
    by blast
  with a have b: "length (item_id (make_item str_int (hd walk_one))) = 16"
    by simp
  from t h1 have c: "set (idx_items (build_index str_int (2::int) ''/srv/videos'' walk_two)) =
      set (idx_items (build_index str_int (1::int) ''/srv/videos'' walk_one))"
    by blast
  from h1 h2 a b c show ?thesis
    by (intro conjI)
qed

section \<open>Cache save failures\<close>

lemma build_and_save_fails:
  "INDEX_CACHE_PATH g = Some p \<Longrightarrow> \<not> w_writable w p \<Longrightarrow>
   build_and_save w g root_dir =
     (g\<lparr>INDEX := build_index (w_str_float w) (w_time w) root_dir (w_rglob w root_dir)\<rparr>,
      Inl OSError)"
  by (simp add: build_and_save_def save_index_def Let_def)

lemma ensure_index_save_fails:
  "\<not> cache_usable w (w_resolve w root_dir) \<Longrightarrow>
   \<not> w_writable w (path_join (w_resolve w root_dir) ''.reels_index.json'') \<Longrightarrow>
   ensure_index w g root_dir =
     (g\<lparr>INDEX_CACHE_PATH := Some (path_join (w_resolve w root_dir) ''.reels_index.json''),
        INDEX := build_index (w_str_float w) (w_time w) (w_resolve w root_dir)
                   (w_rglob w (w_resolve w root_dir))\<rparr>,
      Inl OSError)"
  by (auto simp: ensure_index_def cache_usable_def Let_def build_and_save_fails
      split: sum.splits)

lemma refresh_save_fails:
  "map_of args ''reindex'' = Some ''1'' \<Longrightarrow> INDEX_CACHE_PATH g = Some p \<Longrightarrow>
   \<not> w_writable w p \<Longrightarrow>
   refresh_index_if_requested w g args root_dir = (g, Inl OSError)"
  by (simp add: refresh_index_if_requested_def save_index_def Let_def)

lemma build_index_built_at: "idx_built_at (build_index sf now root_dir walk) = Some now"
  by (simp add: build_index_def split: prod.splits)

text \<open>
  Claim C1, as the program has it. A failure to write the cache file is not caught. When
  the cache path is not writable and no usable cache exists, \<open>ensure_index\<close> ends with the
  exception of the write, after it has installed the freshly built index as the live
  index. When a reindex is requested and the cache path is not writable,
  \<open>refresh_index_if_requested\<close> ends with the exception of the write.
\<close>

theorem save_failure_propagates:
  "\<not> w_writable w (path_join (w_resolve w root_dir) ''.reels_index.json'') \<Longrightarrow>
     (\<not> cache_usable w (w_resolve w root_dir) \<longrightarrow>
        ensure_index w g root_dir =
          (g\<lparr>INDEX_CACHE_PATH := Some (path_join (w_resolve w root_dir) ''.reels_index.json''),
             INDEX := build_index (w_str_float w) (w_time w) (w_resolve w root_dir)
                        (w_rglob w (w_resolve w root_dir))\<rparr>,
           Inl OSError))
   \<and> (map_of args ''reindex'' = Some ''1''
          \<and> INDEX_CACHE_PATH g = Some (path_join (w_resolve w root_dir) ''.reels_index.json'') \<longrightarrow>
        snd (refresh_index_if_requested w g args root_dir) = Inl OSError)"
  by (simp add: ensure_index_save_fails refresh_save_fails)

theorem save_failure_propagates_witness:
  "\<not> w_writable readonly_world
       (path_join (w_resolve readonly_world ''/srv/videos'') ''.reels_index.json'')
   \<and> \<not> cache_usable readonly_world (w_resolve readonly_world ''/srv/videos'')
   \<and> map_of [(''reindex'', ''1'')] ''reindex'' = Some ''1''
   \<and> INDEX_CACHE_PATH stale_globals =
       Some (path_join (w_resolve readonly_world ''/srv/videos'') ''.reels_index.json'')
   \<and> ensure_index readonly_world stale_globals ''/srv/videos'' =
       (stale_globals
          \<lparr>INDEX_CACHE_PATH :=
             Some (path_join (w_resolve readonly_world ''/srv/videos'') ''.reels_index.json''),
           INDEX :=
             build_index (w_str_float readonly_world) (w_time readonly_world)
               (w_resolve readonly_world ''/srv/videos'')
               (w_rglob readonly_world (w_resolve readonly_world ''/srv/videos''))\<rparr>,
        Inl OSError)
   \<and> snd (refresh_index_if_requested readonly_world stale_globals [(''reindex'', ''1'')]
            ''/srv/videos'') = Inl OSError"
proof -
  have h1: "\<not> w_writable readonly_world
                (path_join (w_resolve readonly_world ''/srv/videos'') ''.reels_index.json'')"
    by (simp add: readonly_world_def)
  have h2: "\<not> cache_usable readonly_world (w_resolve readonly_world ''/srv/videos'')"
    by (simp add: cache_usable_def readonly_world_def)
  have h3: "map_of [(''reindex'', ''1'')] ''reindex'' = Some ''1''"
    by simp
  have h4: "INDEX_CACHE_PATH stale_globals =
            Some (path_join (w_resolve readonly_world ''/srv/videos'') ''.reels_index.json'')"
    by code_simp
  from h1 h2 h3 h4
    save_failure_propagates[OF h1, of stale_globals "[(''reindex'', ''1'')]"]
  show ?thesis
    by blast
qed

text \<open>
  Claim C1 as it was stated fails in a tree where nothing can be written. At startup
  \<open>ensure_index\<close> ends with the exception, which nothing catches. On a reindex request
  \<open>refresh_index_if_requested\<close> ends with the exception and leaves the globals as they
  were: the live index is still the one built at time 0, not the one built at time 5.
\<close>

theorem save_failure_counterexample:
  "snd (ensure_index readonly_world stale_globals ''/srv/videos'') = Inl OSError
   \<and> refresh_index_if_requested readonly_world stale_globals [(''reindex'', ''1'')]
        ''/srv/videos'' = (stale_globals, Inl OSError)
   \<and> idx_built_at (INDEX stale_globals) = Some 0
   \<and> idx_built_at
        (build_index (w_str_float readonly_world) (w_time readonly_world) ''/srv/videos''
           (w_rglob readonly_world ''/srv/videos'')) = Some 5"
proof -
  have h1: "\<not> w_writable readonly_world
                (path_join (w_resolve readonly_world ''/srv/videos'') ''.reels_index.json'')"
    by (simp add: readonly_world_def)
  have h2: "\<not> cache_usable readonly_world (w_resolve readonly_world ''/srv/videos'')"
    by (simp add: cache_usable_def readonly_world_def)
  have h3: "map_of [(''reindex'', ''1'')] ''reindex'' = Some ''1''"
    by simp
  have h4: "INDEX_CACHE_PATH stale_globals = Some ''/srv/videos/.reels_index.json''"
    by (simp add: stale_globals_def)
  have h5: "\<not> w_writable readonly_world ''/srv/videos/.reels_index.json''"
    by (simp add: readonly_world_def)
  have a: "snd (ensure_index readonly_world stale_globals ''/srv/videos'') = Inl OSError"
    by (simp only: ensure_index_save_fails[OF h2 h1] snd_conv)
  have b: "refresh_index_if_requested readonly_world stale_globals [(''reindex'', ''1'')]
             ''/srv/videos'' = (stale_globals, Inl OSError)"
    by (rule refresh_save_fails[OF h3 h4 h5])
  have c: "idx_built_at (INDEX stale_globals) = Some 0"
    by (simp add: stale_globals_def)
  have d: "idx_built_at
             (build_index (w_str_float readonly_world) (w_time readonly_world) ''/srv/videos''
                (w_rglob readonly_world ''/srv/videos'')) = Some 5"
    by (simp add: build_index_built_at readonly_world_def)
  from a b c d show ?thesis
    by (intro conjI)
qed

end
